theory Spec2Isabelle
  imports Complex_Main "HOL-Library.Monad_Syntax"
begin

section \<open>Python values\<close>

text \<open>
  The mapper of \<^verbatim>\<open>src/mappers/observation_mapper.py\<close> receives a \<^verbatim>\<open>str\<close> and a
  \<^verbatim>\<open>float\<close>. A float is a finite number, one of the two infinities or NaN; the mapper
  does no arithmetic on it, so a finite float is kept as the rational number it denotes.
  The float \<^verbatim>\<open>-0.0\<close> is a value of its own, \<open>NegZero\<close>: it denotes the same number as
  \<^verbatim>\<open>0.0\<close>, which is \<open>Finite 0\<close>, and is printed differently.
\<close>

datatype pyfloat = Finite rat | NegZero | PosInf | NegInf | NaN

text \<open>Python's \<^verbatim>\<open>math.isfinite\<close>.\<close>

fun isfinite :: "pyfloat \<Rightarrow> bool" where
  "isfinite (Finite _) = True"
| "isfinite NegZero = True"
| "isfinite PosInf = False"
| "isfinite NegInf = False"
| "isfinite NaN = False"

text \<open>
  The plain values the mapper writes into the resource: strings, floats, list displays and
  dict displays. A dict keeps its keys in insertion order, so it is an association list.
\<close>

datatype pyval =
    Str string
  | Float pyfloat
  | List "pyval list"
  | Dict "(string \<times> pyval) list"

text \<open>
  Reading a member of a dict and an element of a list; a missing key, an index out of
  range and a value of the wrong kind are \<open>None\<close>. \<open>members\<close> lists the members of a
  dict in their order.
\<close>

fun member :: "string \<Rightarrow> pyval \<Rightarrow> pyval option" where
  "member k (Dict kvs) = map_of kvs k"
| "member k _ = None"

fun members :: "pyval \<Rightarrow> (string \<times> pyval) list" where
  "members (Dict kvs) = kvs"
| "members _ = []"

fun element :: "nat \<Rightarrow> pyval \<Rightarrow> pyval option" where
  "element i (List xs) = (if i < length xs then Some (xs ! i) else None)"
| "element i _ = None"

definition item :: "nat \<Rightarrow> 'a list \<Rightarrow> 'a option" where
  "item i xs = (if i < length xs then Some (xs ! i) else None)"

section \<open>Errors\<close>

text \<open>
  The source defines no exception class and has no \<^verbatim>\<open>raise\<close> and no \<^verbatim>\<open>try\<close>: an
  exception that leaves the mapper is one the resource library raised.
  \<open>ValidationError\<close> is the library's exception for a value its schema refuses.
  \<open>InvalidInput\<close> and \<open>SerializationError\<close> are the two kinds the specification names;
  no equation of the mapper produces either.
\<close>

datatype error = InvalidInput | SerializationError | ValidationError

section \<open>The resource objects\<close>

text \<open>
  \<^verbatim>\<open>CodeableConcept\<close> and \<^verbatim>\<open>Observation\<close> are classes of the external resource library.
  The mapper creates them with \<^verbatim>\<open>construct\<close> and stores into five attributes of the
  observation; an attribute that was never stored is \<open>None\<close>. The records hold the
  attributes the mapper touches and, for the observation, the resource type that the
  class carries and that the library writes into every serialized resource.
\<close>

record CodeableConcept =
  coding :: "pyval option"

record Observation =
  resource_type :: string
  status :: "pyval option"
  category :: "CodeableConcept list option"
  code :: "CodeableConcept option"
  subject :: "pyval option"
  valueQuantity :: "pyval option"

text \<open>\<^verbatim>\<open>Observation.construct()\<close>: the resource type is set, no other attribute is.\<close>

definition Observation_construct :: Observation where
  "Observation_construct =
     \<lparr>resource_type = ''Observation'', status = None, category = None, code = None,
      subject = None, valueQuantity = None\<rparr>"

text \<open>\<^verbatim>\<open>CodeableConcept.construct(coding=...)\<close>: the argument is stored as it is.\<close>

definition CodeableConcept_construct :: "pyval \<Rightarrow> CodeableConcept" where
  "CodeableConcept_construct c = \<lparr>coding = Some c\<rparr>"

text \<open>
  The library validates a value when it is assigned to an attribute of a resource. The
  number of a quantity goes through the decimal validator, which refuses a float that is
  not finite and raises \<open>ValidationError\<close>.
\<close>

definition decimal_validator :: "pyfloat \<Rightarrow> error + pyfloat" where
  "decimal_validator v = (if isfinite v then Inr v else Inl ValidationError)"

section \<open>The mapper\<close>

text \<open>
  Lines 9 to 30 of \<^verbatim>\<open>map_temperature_to_fhir\<close>: the value of the local variable
  \<^verbatim>\<open>observation\<close> when line 32 is reached, or the exception raised before. Each
  assignment to an attribute is a record update. The f-string
  \<^verbatim>\<open>f"Patient/{patient_id}"\<close> of a \<^verbatim>\<open>str\<close> is the concatenation.

  The values assigned on lines 10 to 24 are literals and a reference that starts with
  \<^verbatim>\<open>Patient/\<close>; the library's validation accepts them whatever \<open>patient_id\<close> is.
  The assignment of line 25 is the one that can fail: the dict is validated as a quantity,
  its three strings are accepted, and its \<^verbatim>\<open>value\<close> is \<open>temp_value\<close>, which the decimal
  validator refuses when it is not finite. Then nothing is stored and line 32 is not
  reached.
\<close>

definition assembled_observation :: "string \<Rightarrow> pyfloat \<Rightarrow> error + Observation" where
  "assembled_observation patient_id temp_value =
     (let observation = Observation_construct;
          observation = observation\<lparr>status := Some (Str ''final'')\<rparr>;
          observation = observation\<lparr>category := Some [CodeableConcept_construct (List [Dict [
            (''system'', Str ''http://terminology.hl7.org/CodeSystem/observation-category''),
            (''code'', Str ''vital-signs''),
            (''display'', Str ''Vital Signs'')]])]\<rparr>;
          observation = observation\<lparr>code := Some (CodeableConcept_construct (List [Dict [
            (''system'', Str ''http://loinc.org''),
            (''code'', Str ''8310-5''),
            (''display'', Str ''Body temperature'')]]))\<rparr>;
          observation = observation\<lparr>subject :=
            Some (Dict [(''reference'', Str (''Patient/'' @ patient_id))])\<rparr>
      in case decimal_validator temp_value of
           Inl e \<Rightarrow> Inl e
         | Inr v \<Rightarrow> Inr (observation\<lparr>valueQuantity := Some (Dict [
             (''value'', Float v),
             (''unit'', Str ''C''),
             (''system'', Str ''http://unitsofmeasure.org''),
             (''code'', Str ''Cel'')])\<rparr>))"

text \<open>
  Line 32, \<^verbatim>\<open>return observation.json(indent=2)\<close>, is reached when no assignment raised.
  The serializer is a method of the external library, so it is a parameter \<open>json\<close> of the
  model: it takes the observation and the indentation and either raises (\<open>Inl\<close>) or
  returns the text (\<open>Inr\<close>). What it raises or returns is what the caller gets.
\<close>

definition map_temperature_to_fhir ::
  "(Observation \<Rightarrow> nat \<Rightarrow> error + 'r) \<Rightarrow> string \<Rightarrow> pyfloat \<Rightarrow> error + 'r" where
  "map_temperature_to_fhir json patient_id temp_value =
     (case assembled_observation patient_id temp_value of
        Inl e \<Rightarrow> Inl e
      | Inr observation \<Rightarrow> json observation 2)"

section \<open>The text the library writes\<close>

text \<open>
  The library's \<^verbatim>\<open>json\<close> method first turns the resource into a dict: the member
  \<^verbatim>\<open>resourceType\<close>, then the attributes that are set, in the order of the resource's
  definition, which for the five attributes of the mapper is \<open>status\<close>, \<open>category\<close>,
  \<open>code\<close>, \<open>subject\<close>, \<open>valueQuantity\<close>. An attribute that is \<open>None\<close> is left out.
\<close>

definition optional :: "string \<Rightarrow> pyval option \<Rightarrow> (string \<times> pyval) list" where
  "optional k v = (case v of None \<Rightarrow> [] | Some x \<Rightarrow> [(k, x)])"

definition CodeableConcept_dict :: "CodeableConcept \<Rightarrow> pyval" where
  "CodeableConcept_dict c = Dict (optional ''coding'' (coding c))"

definition Observation_dict :: "Observation \<Rightarrow> pyval" where
  "Observation_dict obs = Dict (
     [(''resourceType'', Str (resource_type obs))]
     @ optional ''status'' (status obs)
     @ optional ''category''
         (map_option (\<lambda>cs. List (map CodeableConcept_dict cs)) (category obs))
     @ optional ''code'' (map_option CodeableConcept_dict (code obs))
     @ optional ''subject'' (subject obs)
     @ optional ''valueQuantity'' (valueQuantity obs))"

text \<open>
  The dict is then written as JSON text with the given indentation, in the layout of
  Python's \<^verbatim>\<open>json.dumps\<close>: every member and every element on a line of its own, indented
  by the indentation times the nesting depth, a comma at the end of the line, a colon and
  a space after a key, and an empty container written without a line break.

  Two things are left to the encoder and are parameters: \<open>number\<close>, the text of a float,
  and \<open>other\<close>, the escape of a character that is not printable ASCII. A double quote
  and a backslash are escaped with a backslash; every other printable ASCII character
  stands for itself.
\<close>

definition escape_char :: "(char \<Rightarrow> string) \<Rightarrow> char \<Rightarrow> string" where
  "escape_char other c =
     (if c = CHR 0x22 then [CHR 0x5C, CHR 0x22]
      else if c = CHR 0x5C then [CHR 0x5C, CHR 0x5C]
      else if 32 \<le> (of_char c :: nat) \<and> (of_char c :: nat) < 127 then [c]
      else other c)"

definition quote :: "(char \<Rightarrow> string) \<Rightarrow> string \<Rightarrow> string" where
  "quote other s = CHR 0x22 # concat (map (escape_char other) s) @ [CHR 0x22]"

definition newline_indent :: "nat \<Rightarrow> nat \<Rightarrow> string" where
  "newline_indent indent level = CHR 0x0A # replicate (indent * level) (CHR '' '')"

fun join :: "'a list \<Rightarrow> 'a list list \<Rightarrow> 'a list" where
  "join sep [] = []"
| "join sep [x] = x"
| "join sep (x # y # ys) = x @ sep @ join sep (y # ys)"

fun dumps ::
  "(pyfloat \<Rightarrow> string) \<Rightarrow> (char \<Rightarrow> string) \<Rightarrow> nat \<Rightarrow> nat \<Rightarrow> pyval \<Rightarrow> string" where
  "dumps number other indent level (Str s) = quote other s"
| "dumps number other indent level (Float f) = number f"
| "dumps number other indent level (List xs) =
     (if xs = [] then ''[]''
      else ''['' @ newline_indent indent (Suc level)
        @ join ('','' @ newline_indent indent (Suc level))
            (map (dumps number other indent (Suc level)) xs)
        @ newline_indent indent level @ '']'')"
| "dumps number other indent level (Dict kvs) =
     (if kvs = [] then ''{}''
      else ''{'' @ newline_indent indent (Suc level)
        @ join ('','' @ newline_indent indent (Suc level))
            (map (\<lambda>(k, v). quote other k @ '': '' @ dumps number other indent (Suc level) v)
               kvs)
        @ newline_indent indent level @ ''}'')"

definition Observation_json ::
  "(pyfloat \<Rightarrow> string) \<Rightarrow> (char \<Rightarrow> string) \<Rightarrow> Observation \<Rightarrow> nat \<Rightarrow> error + string" where
  "Observation_json number other obs indent =
     Inr (dumps number other indent 0 (Observation_dict obs))"

section \<open>Serializers used for evaluation\<close>

text \<open>
  Two stand-ins for the library's serializer, for evaluating the mapper: \<open>observed\<close>
  succeeds on every observation and returns what it was asked to render together with
  the indentation; \<open>rejecting\<close> fails on every observation.
\<close>

definition observed :: "Observation \<Rightarrow> nat \<Rightarrow> error + Observation \<times> nat" where
  "observed obs indent = Inr (obs, indent)"

definition rejecting :: "Observation \<Rightarrow> nat \<Rightarrow> error + Observation \<times> nat" where
  "rejecting obs indent = Inl SerializationError"

section \<open>The output shape of the specification\<close>

text \<open>
  The shape of section 6 of the specification, written from its words: an object with the
  top-level fields \<open>status\<close>, \<open>category\<close>, \<open>code\<close>, \<open>subject\<close> and \<open>valueQuantity\<close>,
  in this order, with the nesting and the literal values given there.
\<close>

definition spec_output_shape :: "string \<Rightarrow> pyfloat \<Rightarrow> pyval" where
  "spec_output_shape patient_id temperature_value = Dict [
     (''status'', Str ''final''),
     (''category'', List [Dict [(''coding'', List [Dict [
        (''system'', Str ''http://terminology.hl7.org/CodeSystem/observation-category''),
        (''code'', Str ''vital-signs''),
        (''display'', Str ''Vital Signs'')]])]]),
     (''code'', Dict [(''coding'', List [Dict [
        (''system'', Str ''http://loinc.org''),
        (''code'', Str ''8310-5''),
        (''display'', Str ''Body temperature'')]])]),
     (''subject'', Dict [(''reference'', Str (''Patient/'' @ patient_id))]),
     (''valueQuantity'', Dict [
        (''value'', Float temperature_value),
        (''unit'', Str ''C''),
        (''system'', Str ''http://unitsofmeasure.org''),
        (''code'', Str ''Cel'')])]"

section \<open>Helper facts\<close>

lemma assembled_observation_finite:
  "isfinite temp_value \<Longrightarrow>
   assembled_observation patient_id temp_value = Inr
     \<lparr>resource_type = ''Observation'',
      status = Some (Str ''final''),
      category = Some [\<lparr>coding = Some (List [Dict [
        (''system'', Str ''http://terminology.hl7.org/CodeSystem/observation-category''),
        (''code'', Str ''vital-signs''),
        (''display'', Str ''Vital Signs'')]])\<rparr>],
      code = Some \<lparr>coding = Some (List [Dict [
        (''system'', Str ''http://loinc.org''),
        (''code'', Str ''8310-5''),
        (''display'', Str ''Body temperature'')]])\<rparr>,
      subject = Some (Dict [(''reference'', Str (''Patient/'' @ patient_id))]),
      valueQuantity = Some (Dict [
        (''value'', Float temp_value),
        (''unit'', Str ''C''),
        (''system'', Str ''http://unitsofmeasure.org''),
        (''code'', Str ''Cel'')])\<rparr>"
  by (simp add: assembled_observation_def Observation_construct_def
      CodeableConcept_construct_def decimal_validator_def)

lemma assembled_observation_not_finite:
  "\<not> isfinite temp_value \<Longrightarrow>
   assembled_observation patient_id temp_value = Inl ValidationError"
  by (simp add: assembled_observation_def decimal_validator_def)

lemma mapper_finite:
  "isfinite temp_value \<Longrightarrow>
   map_temperature_to_fhir json patient_id temp_value = json
     \<lparr>resource_type = ''Observation'',
      status = Some (Str ''final''),
      category = Some [\<lparr>coding = Some (List [Dict [
        (''system'', Str ''http://terminology.hl7.org/CodeSystem/observation-category''),
        (''code'', Str ''vital-signs''),
        (''display'', Str ''Vital Signs'')]])\<rparr>],
      code = Some \<lparr>coding = Some (List [Dict [
        (''system'', Str ''http://loinc.org''),
        (''code'', Str ''8310-5''),
        (''display'', Str ''Body temperature'')]])\<rparr>,
      subject = Some (Dict [(''reference'', Str (''Patient/'' @ patient_id))]),
      valueQuantity = Some (Dict [
        (''value'', Float temp_value),
        (''unit'', Str ''C''),
        (''system'', Str ''http://unitsofmeasure.org''),
        (''code'', Str ''Cel'')])\<rparr> 2"
  by (simp add: map_temperature_to_fhir_def assembled_observation_finite)

lemma mapper_not_finite:
  "\<not> isfinite temp_value \<Longrightarrow>
   map_temperature_to_fhir json patient_id temp_value = Inl ValidationError"
  by (simp add: map_temperature_to_fhir_def assembled_observation_not_finite)

lemma quote_literals:
  \<open>quote other ''resourceType'' = ''"resourceType"''\<close>
  \<open>quote other ''Observation'' = ''"Observation"''\<close>
  \<open>quote other ''status'' = ''"status"''\<close>
  \<open>quote other ''final'' = ''"final"''\<close>
  \<open>quote other ''category'' = ''"category"''\<close>
  \<open>quote other ''coding'' = ''"coding"''\<close>
  \<open>quote other ''system'' = ''"system"''\<close>
  \<open>quote other ''http://terminology.hl7.org/CodeSystem/observation-category'' =
     ''"http://terminology.hl7.org/CodeSystem/observation-category"''\<close>
  \<open>quote other ''code'' = ''"code"''\<close>
  \<open>quote other ''vital-signs'' = ''"vital-signs"''\<close>
  \<open>quote other ''display'' = ''"display"''\<close>
  \<open>quote other ''Vital Signs'' = ''"Vital Signs"''\<close>
  \<open>quote other ''http://loinc.org'' = ''"http://loinc.org"''\<close>
  \<open>quote other ''8310-5'' = ''"8310-5"''\<close>
  \<open>quote other ''Body temperature'' = ''"Body temperature"''\<close>
  \<open>quote other ''subject'' = ''"subject"''\<close>
  \<open>quote other ''reference'' = ''"reference"''\<close>
  \<open>quote other ''valueQuantity'' = ''"valueQuantity"''\<close>
  \<open>quote other ''value'' = ''"value"''\<close>
  \<open>quote other ''unit'' = ''"unit"''\<close>
  \<open>quote other ''C'' = ''"C"''\<close>
  \<open>quote other ''http://unitsofmeasure.org'' = ''"http://unitsofmeasure.org"''\<close>
  \<open>quote other ''Cel'' = ''"Cel"''\<close>
  by (simp_all add: quote_def escape_char_def)

lemma Observation_dict_assembled:
  "Observation_dict
     \<lparr>resource_type = ''Observation'',
      status = Some (Str ''final''),
      category = Some [\<lparr>coding = Some (List [Dict [
        (''system'', Str ''http://terminology.hl7.org/CodeSystem/observation-category''),
        (''code'', Str ''vital-signs''),
        (''display'', Str ''Vital Signs'')]])\<rparr>],
      code = Some \<lparr>coding = Some (List [Dict [
        (''system'', Str ''http://loinc.org''),
        (''code'', Str ''8310-5''),
        (''display'', Str ''Body temperature'')]])\<rparr>,
      subject = Some (Dict [(''reference'', Str (''Patient/'' @ patient_id))]),
      valueQuantity = Some (Dict [
        (''value'', Float temp_value),
        (''unit'', Str ''C''),
        (''system'', Str ''http://unitsofmeasure.org''),
        (''code'', Str ''Cel'')])\<rparr> =
   Dict ((''resourceType'', Str ''Observation'') # members (spec_output_shape patient_id temp_value))"
  by (simp add: Observation_dict_def CodeableConcept_dict_def optional_def spec_output_shape_def)

lemma document_text:
  \<open>dumps number other 2 0
     (Dict ((''resourceType'', Str ''Observation'') # members (spec_output_shape patient_id temp_value))) =
     ''{\<newline>'' @
     ''  "resourceType": "Observation",\<newline>'' @
     ''  "status": "final",\<newline>'' @
     ''  "category": [\<newline>'' @
     ''    {\<newline>'' @
     ''      "coding": [\<newline>'' @
     ''        {\<newline>'' @
     ''          "system": "http://terminology.hl7.org/CodeSystem/observation-category",\<newline>'' @
     ''          "code": "vital-signs",\<newline>'' @
     ''          "display": "Vital Signs"\<newline>'' @
     ''        }\<newline>'' @
     ''      ]\<newline>'' @
     ''    }\<newline>'' @
     ''  ],\<newline>'' @
     ''  "code": {\<newline>'' @
     ''    "coding": [\<newline>'' @
     ''      {\<newline>'' @
     ''        "system": "http://loinc.org",\<newline>'' @
     ''        "code": "8310-5",\<newline>'' @
     ''        "display": "Body temperature"\<newline>'' @
     ''      }\<newline>'' @
     ''    ]\<newline>'' @
     ''  },\<newline>'' @
     ''  "subject": {\<newline>'' @
     ''    "reference": '' @ quote other (''Patient/'' @ patient_id) @ ''\<newline>'' @
     ''  },\<newline>'' @
     ''  "valueQuantity": {\<newline>'' @
     ''    "value": '' @ number temp_value @ '',\<newline>'' @
     ''    "unit": "C",\<newline>'' @
     ''    "system": "http://unitsofmeasure.org",\<newline>'' @
     ''    "code": "Cel"\<newline>'' @
     ''  }\<newline>'' @
     ''}''\<close>
  by (simp add: spec_output_shape_def quote_literals newline_indent_def eval_nat_numeral)

lemma serialized_text:
  \<open>isfinite temp_value \<Longrightarrow>
   map_temperature_to_fhir (Observation_json number other) patient_id temp_value = Inr (
     ''{\<newline>'' @
     ''  "resourceType": "Observation",\<newline>'' @
     ''  "status": "final",\<newline>'' @
     ''  "category": [\<newline>'' @
     ''    {\<newline>'' @
     ''      "coding": [\<newline>'' @
     ''        {\<newline>'' @
     ''          "system": "http://terminology.hl7.org/CodeSystem/observation-category",\<newline>'' @
     ''          "code": "vital-signs",\<newline>'' @
     ''          "display": "Vital Signs"\<newline>'' @
     ''        }\<newline>'' @
     ''      ]\<newline>'' @
     ''    }\<newline>'' @
     ''  ],\<newline>'' @
     ''  "code": {\<newline>'' @
     ''    "coding": [\<newline>'' @
     ''      {\<newline>'' @
     ''        "system": "http://loinc.org",\<newline>'' @
     ''        "code": "8310-5",\<newline>'' @
     ''        "display": "Body temperature"\<newline>'' @
     ''      }\<newline>'' @
     ''    ]\<newline>'' @
     ''  },\<newline>'' @
     ''  "subject": {\<newline>'' @
     ''    "reference": '' @ quote other (''Patient/'' @ patient_id) @ ''\<newline>'' @
     ''  },\<newline>'' @
     ''  "valueQuantity": {\<newline>'' @
     ''    "value": '' @ number temp_value @ '',\<newline>'' @
     ''    "unit": "C",\<newline>'' @
     ''    "system": "http://unitsofmeasure.org",\<newline>'' @
     ''    "code": "Cel"\<newline>'' @
     ''  }\<newline>'' @
     ''}'')\<close>
  by (simp only: mapper_finite Observation_json_def Observation_dict_assembled document_text)

section \<open>Faithful embedding of the inputs\<close>

text \<open>
  C1. For every non-empty \<open>patient_id\<close> and every finite \<open>temp_value\<close>, the observation
  that is serialized has \<open>subject.reference\<close> equal to \<open>Patient/\<close> followed by
  \<open>patient_id\<close>, character for character, and \<open>valueQuantity.value\<close> equal to
  \<open>temp_value\<close> itself.
\<close>

theorem faithful_embedding:
  assumes "patient_id \<noteq> []" and "isfinite temp_value"
  shows "\<exists>observation. assembled_observation patient_id temp_value = Inr observation
         \<and> map_temperature_to_fhir json patient_id temp_value = json observation 2
         \<and> (subject observation \<bind> member ''reference'')
             = Some (Str (''Patient/'' @ patient_id))
         \<and> (valueQuantity observation \<bind> member ''value'') = Some (Float temp_value)"
  using assms(2) by (simp add: map_temperature_to_fhir_def assembled_observation_finite)

theorem faithful_embedding_witness:
  "''123'' \<noteq> [] \<and> isfinite (Finite 36.5)
   \<and> (\<exists>observation. assembled_observation ''123'' (Finite 36.5) = Inr observation
       \<and> map_temperature_to_fhir observed ''123'' (Finite 36.5) = Inr (observation, 2)
       \<and> (subject observation \<bind> member ''reference'') = Some (Str ''Patient/123'')
       \<and> (valueQuantity observation \<bind> member ''value'') = Some (Float (Finite 36.5)))"
  using faithful_embedding [of "''123''" "Finite 36.5" observed]
  by (simp add: observed_def)

section \<open>Inputs the specification wants rejected\<close>

text \<open>
  C2, as stated: an empty \<open>patient_id\<close> raises InvalidInput, in particular at
  \<open>("", 37.0)\<close>. The mapper has no check of \<open>patient_id\<close>: the call at \<open>("", 37.0)\<close>
  reaches the serializer with the reference \<open>Patient/\<close> and returns what it returns.
\<close>

theorem empty_patient_id_counterexample:
  "map_temperature_to_fhir observed '''' (Finite 37) =
     Inr (\<lparr>resource_type = ''Observation'',
           status = Some (Str ''final''),
           category = Some [\<lparr>coding = Some (List [Dict [
             (''system'', Str ''http://terminology.hl7.org/CodeSystem/observation-category''),
             (''code'', Str ''vital-signs''),
             (''display'', Str ''Vital Signs'')]])\<rparr>],
           code = Some \<lparr>coding = Some (List [Dict [
             (''system'', Str ''http://loinc.org''),
             (''code'', Str ''8310-5''),
             (''display'', Str ''Body temperature'')]])\<rparr>,
           subject = Some (Dict [(''reference'', Str ''Patient/'')]),
           valueQuantity = Some (Dict [
             (''value'', Float (Finite 37)),
             (''unit'', Str ''C''),
             (''system'', Str ''http://unitsofmeasure.org''),
             (''code'', Str ''Cel'')])\<rparr>, 2)
   \<and> map_temperature_to_fhir observed '''' (Finite 37) \<noteq> Inl InvalidInput"
  by (simp add: mapper_finite observed_def)

text \<open>
  C2, amended: an empty \<open>patient_id\<close> is not rejected. For every finite \<open>temp_value\<close>
  the mapper assembles the observation whose subject is the reference \<open>Patient/\<close> and
  gives back exactly what the serializer gives for it.
\<close>

theorem empty_patient_id_passes_through:
  assumes "isfinite temp_value"
  shows "map_temperature_to_fhir json '''' temp_value = json
           \<lparr>resource_type = ''Observation'',
            status = Some (Str ''final''),
            category = Some [\<lparr>coding = Some (List [Dict [
              (''system'', Str ''http://terminology.hl7.org/CodeSystem/observation-category''),
              (''code'', Str ''vital-signs''),
              (''display'', Str ''Vital Signs'')]])\<rparr>],
            code = Some \<lparr>coding = Some (List [Dict [
              (''system'', Str ''http://loinc.org''),
              (''code'', Str ''8310-5''),
              (''display'', Str ''Body temperature'')]])\<rparr>,
            subject = Some (Dict [(''reference'', Str ''Patient/'')]),
            valueQuantity = Some (Dict [
              (''value'', Float temp_value),
              (''unit'', Str ''C''),
              (''system'', Str ''http://unitsofmeasure.org''),
              (''code'', Str ''Cel'')])\<rparr> 2"
  using assms mapper_finite [of temp_value json "''''"] by simp

theorem empty_patient_id_passes_through_witness:
  "isfinite (Finite 38.5)
   \<and> map_temperature_to_fhir observed '''' (Finite 38.5) =
       Inr (\<lparr>resource_type = ''Observation'',
             status = Some (Str ''final''),
             category = Some [\<lparr>coding = Some (List [Dict [
               (''system'', Str ''http://terminology.hl7.org/CodeSystem/observation-category''),
               (''code'', Str ''vital-signs''),
               (''display'', Str ''Vital Signs'')]])\<rparr>],
             code = Some \<lparr>coding = Some (List [Dict [
               (''system'', Str ''http://loinc.org''),
               (''code'', Str ''8310-5''),
               (''display'', Str ''Body temperature'')]])\<rparr>,
             subject = Some (Dict [(''reference'', Str ''Patient/'')]),
             valueQuantity = Some (Dict [
               (''value'', Float (Finite 38.5)),
               (''unit'', Str ''C''),
               (''system'', Str ''http://unitsofmeasure.org''),
               (''code'', Str ''Cel'')])\<rparr>, 2)"
  using empty_patient_id_passes_through [of "Finite 38.5" observed]
  by (simp add: observed_def)

text \<open>
  C3, as stated: a NaN or infinite \<open>temp_value\<close> raises InvalidInput. The call at
  \<open>("123", NaN)\<close> does raise and returns nothing, but what it raises is the library's
  ValidationError, from the assignment of line 25; the mapper has no InvalidInput.
\<close>

theorem non_finite_value_counterexample:
  "map_temperature_to_fhir observed ''123'' NaN = Inl ValidationError
   \<and> map_temperature_to_fhir observed ''123'' NaN \<noteq> Inl InvalidInput"
  by (simp add: mapper_not_finite)

text \<open>
  C3, amended: for every \<open>patient_id\<close> and every serializer, a \<open>temp_value\<close> that is
  not finite makes the assignment of line 25 raise the library's ValidationError: the
  call raises it and returns no output.
\<close>

theorem non_finite_value_raises_validation_error:
  assumes "\<not> isfinite temp_value"
  shows "assembled_observation patient_id temp_value = Inl ValidationError
         \<and> map_temperature_to_fhir json patient_id temp_value = Inl ValidationError
         \<and> (\<forall>out. map_temperature_to_fhir json patient_id temp_value \<noteq> Inr out)"
  using assms by (simp add: mapper_not_finite assembled_observation_not_finite)

theorem non_finite_value_raises_validation_error_witness:
  "\<not> isfinite PosInf
   \<and> assembled_observation ''abc-789'' PosInf = Inl ValidationError
   \<and> map_temperature_to_fhir observed ''abc-789'' PosInf = Inl ValidationError
   \<and> (\<forall>out. map_temperature_to_fhir observed ''abc-789'' PosInf \<noteq> Inr out)"
  using non_finite_value_raises_validation_error [of PosInf "''abc-789''" observed]
  by simp

section \<open>Fixed fields\<close>

text \<open>
  C4. For every valid input, the observation that is serialized has \<open>status\<close> equal to
  \<open>final\<close>, \<open>category[0].coding[0]\<close> equal to the vital-signs term and
  \<open>code.coding[0]\<close> equal to the body-temperature term, whatever the inputs are.
\<close>

theorem field_fixity:
  assumes "patient_id \<noteq> []" and "isfinite temp_value"
  shows "\<exists>observation. assembled_observation patient_id temp_value = Inr observation
         \<and> map_temperature_to_fhir json patient_id temp_value = json observation 2
         \<and> status observation = Some (Str ''final'')
         \<and> (category observation \<bind> item 0 \<bind> coding \<bind> element 0)
             = Some (Dict [
                 (''system'', Str ''http://terminology.hl7.org/CodeSystem/observation-category''),
                 (''code'', Str ''vital-signs''),
                 (''display'', Str ''Vital Signs'')])
         \<and> (code observation \<bind> coding \<bind> element 0)
             = Some (Dict [
                 (''system'', Str ''http://loinc.org''),
                 (''code'', Str ''8310-5''),
                 (''display'', Str ''Body temperature'')])"
  using assms(2)
  by (simp add: map_temperature_to_fhir_def assembled_observation_finite item_def)

theorem field_fixity_witness:
  "''abc-789'' \<noteq> [] \<and> isfinite (Finite 38.25)
   \<and> (\<exists>observation. assembled_observation ''abc-789'' (Finite 38.25) = Inr observation
       \<and> map_temperature_to_fhir observed ''abc-789'' (Finite 38.25) = Inr (observation, 2)
       \<and> status observation = Some (Str ''final'')
       \<and> (category observation \<bind> item 0 \<bind> coding \<bind> element 0)
           = Some (Dict [
               (''system'', Str ''http://terminology.hl7.org/CodeSystem/observation-category''),
               (''code'', Str ''vital-signs''),
               (''display'', Str ''Vital Signs'')])
       \<and> (code observation \<bind> coding \<bind> element 0)
           = Some (Dict [
               (''system'', Str ''http://loinc.org''),
               (''code'', Str ''8310-5''),
               (''display'', Str ''Body temperature'')]))"
  using field_fixity [of "''abc-789''" "Finite 38.25" observed]
  by (simp add: observed_def)

text \<open>
  C5. For every valid input, the quantity of the observation that is serialized has
  \<open>unit\<close> equal to \<open>C\<close>, \<open>system\<close> equal to \<open>http://unitsofmeasure.org\<close> and
  \<open>code\<close> equal to \<open>Cel\<close>.
\<close>

theorem unit_fixity:
  assumes "patient_id \<noteq> []" and "isfinite temp_value"
  shows "\<exists>observation. assembled_observation patient_id temp_value = Inr observation
         \<and> map_temperature_to_fhir json patient_id temp_value = json observation 2
         \<and> (valueQuantity observation \<bind> member ''unit'') = Some (Str ''C'')
         \<and> (valueQuantity observation \<bind> member ''system'')
             = Some (Str ''http://unitsofmeasure.org'')
         \<and> (valueQuantity observation \<bind> member ''code'') = Some (Str ''Cel'')"
  using assms(2) by (simp add: map_temperature_to_fhir_def assembled_observation_finite)

theorem unit_fixity_witness:
  "''7'' \<noteq> [] \<and> isfinite (Finite (-2))
   \<and> (\<exists>observation. assembled_observation ''7'' (Finite (-2)) = Inr observation
       \<and> map_temperature_to_fhir observed ''7'' (Finite (-2)) = Inr (observation, 2)
       \<and> (valueQuantity observation \<bind> member ''unit'') = Some (Str ''C'')
       \<and> (valueQuantity observation \<bind> member ''system'')
           = Some (Str ''http://unitsofmeasure.org'')
       \<and> (valueQuantity observation \<bind> member ''code'') = Some (Str ''Cel''))"
  using unit_fixity [of "''7''" "Finite (-2)" observed]
  by (simp add: observed_def)

section \<open>The serialized text\<close>

text \<open>
  C6, as stated: the serialized output is the shape of section 6, pretty-printed. At
  \<open>("123", 36.5)\<close> the text the mapper returns is not the text of that shape, whatever
  the encoder writes for the number: its first member is \<open>resourceType\<close>, which the shape
  of section 6 does not have.
\<close>

theorem output_shape_counterexample:
  "\<forall>number other.
     map_temperature_to_fhir (Observation_json number other) ''123'' (Finite 36.5) \<noteq>
       Inr (dumps number other 2 0 (spec_output_shape ''123'' (Finite 36.5)))"
proof (intro allI)
  fix number :: "pyfloat \<Rightarrow> string" and other :: "char \<Rightarrow> string"
  have fin: "isfinite (Finite 36.5)" by simp
  show "map_temperature_to_fhir (Observation_json number other) ''123'' (Finite 36.5) \<noteq>
       Inr (dumps number other 2 0 (spec_output_shape ''123'' (Finite 36.5)))"
    unfolding serialized_text [OF fin]
    by (simp add: spec_output_shape_def quote_literals newline_indent_def eval_nat_numeral)
qed

text \<open>
  C6, amended: for every valid input, the serialized output is the shape of section 6
  with one more member in front, \<open>resourceType\<close> with the value \<open>Observation\<close>: the
  field names, the nesting, the literal values and the order of the keys are those of
  section 6, every member and element is on a line of its own, and the indentation is
  two spaces for each level of nesting.
\<close>

theorem output_text:
  assumes \<open>patient_id \<noteq> []\<close> and \<open>isfinite temp_value\<close>
  shows \<open>map_temperature_to_fhir (Observation_json number other) patient_id temp_value =
           Inr (dumps number other 2 0 (Dict ((''resourceType'', Str ''Observation'')
             # members (spec_output_shape patient_id temp_value))))
         \<and> dumps number other 2 0 (Dict ((''resourceType'', Str ''Observation'')
             # members (spec_output_shape patient_id temp_value))) =
           ''{\<newline>'' @
           ''  "resourceType": "Observation",\<newline>'' @
           ''  "status": "final",\<newline>'' @
           ''  "category": [\<newline>'' @
           ''    {\<newline>'' @
           ''      "coding": [\<newline>'' @
           ''        {\<newline>'' @
           ''          "system": "http://terminology.hl7.org/CodeSystem/observation-category",\<newline>'' @
           ''          "code": "vital-signs",\<newline>'' @
           ''          "display": "Vital Signs"\<newline>'' @
           ''        }\<newline>'' @
           ''      ]\<newline>'' @
           ''    }\<newline>'' @
           ''  ],\<newline>'' @
           ''  "code": {\<newline>'' @
           ''    "coding": [\<newline>'' @
           ''      {\<newline>'' @
           ''        "system": "http://loinc.org",\<newline>'' @
           ''        "code": "8310-5",\<newline>'' @
           ''        "display": "Body temperature"\<newline>'' @
           ''      }\<newline>'' @
           ''    ]\<newline>'' @
           ''  },\<newline>'' @
           ''  "subject": {\<newline>'' @
           ''    "reference": '' @ quote other (''Patient/'' @ patient_id) @ ''\<newline>'' @
           ''  },\<newline>'' @
           ''  "valueQuantity": {\<newline>'' @
           ''    "value": '' @ number temp_value @ '',\<newline>'' @
           ''    "unit": "C",\<newline>'' @
           ''    "system": "http://unitsofmeasure.org",\<newline>'' @
           ''    "code": "Cel"\<newline>'' @
           ''  }\<newline>'' @
           ''}''\<close>
  using assms(2)
  by (simp only: mapper_finite Observation_json_def Observation_dict_assembled document_text
      simp_thms)

theorem output_text_witness:
  \<open>''abc-789'' \<noteq> [] \<and> isfinite (Finite 36.5)
   \<and> (\<forall>number other.
        map_temperature_to_fhir (Observation_json number other) ''abc-789'' (Finite 36.5) = Inr (
          ''{\<newline>'' @
          ''  "resourceType": "Observation",\<newline>'' @
          ''  "status": "final",\<newline>'' @
          ''  "category": [\<newline>'' @
          ''    {\<newline>'' @
          ''      "coding": [\<newline>'' @
          ''        {\<newline>'' @
          ''          "system": "http://terminology.hl7.org/CodeSystem/observation-category",\<newline>'' @
          ''          "code": "vital-signs",\<newline>'' @
          ''          "display": "Vital Signs"\<newline>'' @
          ''        }\<newline>'' @
          ''      ]\<newline>'' @
          ''    }\<newline>'' @
          ''  ],\<newline>'' @
          ''  "code": {\<newline>'' @
          ''    "coding": [\<newline>'' @
          ''      {\<newline>'' @
          ''        "system": "http://loinc.org",\<newline>'' @
          ''        "code": "8310-5",\<newline>'' @
          ''        "display": "Body temperature"\<newline>'' @
          ''      }\<newline>'' @
          ''    ]\<newline>'' @
          ''  },\<newline>'' @
          ''  "subject": {\<newline>'' @
          ''    "reference": '' @ ''"Patient/abc-789"'' @ ''\<newline>'' @
          ''  },\<newline>'' @
          ''  "valueQuantity": {\<newline>'' @
          ''    "value": '' @ number (Finite 36.5) @ '',\<newline>'' @
          ''    "unit": "C",\<newline>'' @
          ''    "system": "http://unitsofmeasure.org",\<newline>'' @
          ''    "code": "Cel"\<newline>'' @
          ''  }\<newline>'' @
          ''}''))\<close>
proof -
  have ne: "''abc-789'' \<noteq> []" by simp
  have fin: "isfinite (Finite 36.5)" by simp
  have q: \<open>quote other (''Patient/'' @ ''abc-789'') = ''"Patient/abc-789"''\<close> for other
    by (simp add: quote_def escape_char_def)
  from output_text [OF ne fin] ne fin show ?thesis
    by (simp only: q simp_thms)
qed

section \<open>Errors of the serializer\<close>

text \<open>
  C8. If the serializer fails on the assembled observation, the mapper fails with the
  same error, unchanged. Whenever the mapper returns, the value is finite and what is
  returned is the serializer's output for the complete observation, with all its
  attributes stored. Every call either fails or returns that output.
\<close>

theorem serialization_error_propagates:
  "(isfinite temp_value \<and> json
       \<lparr>resource_type = ''Observation'',
        status = Some (Str ''final''),
        category = Some [\<lparr>coding = Some (List [Dict [
          (''system'', Str ''http://terminology.hl7.org/CodeSystem/observation-category''),
          (''code'', Str ''vital-signs''),
          (''display'', Str ''Vital Signs'')]])\<rparr>],
        code = Some \<lparr>coding = Some (List [Dict [
          (''system'', Str ''http://loinc.org''),
          (''code'', Str ''8310-5''),
          (''display'', Str ''Body temperature'')]])\<rparr>,
        subject = Some (Dict [(''reference'', Str (''Patient/'' @ patient_id))]),
        valueQuantity = Some (Dict [
          (''value'', Float temp_value),
          (''unit'', Str ''C''),
          (''system'', Str ''http://unitsofmeasure.org''),
          (''code'', Str ''Cel'')])\<rparr> 2 = Inl e \<longrightarrow>
      map_temperature_to_fhir json patient_id temp_value = Inl e)
   \<and> (map_temperature_to_fhir json patient_id temp_value = Inr out \<longrightarrow>
      isfinite temp_value \<and> json
       \<lparr>resource_type = ''Observation'',
        status = Some (Str ''final''),
        category = Some [\<lparr>coding = Some (List [Dict [
          (''system'', Str ''http://terminology.hl7.org/CodeSystem/observation-category''),
          (''code'', Str ''vital-signs''),
          (''display'', Str ''Vital Signs'')]])\<rparr>],
        code = Some \<lparr>coding = Some (List [Dict [
          (''system'', Str ''http://loinc.org''),
          (''code'', Str ''8310-5''),
          (''display'', Str ''Body temperature'')]])\<rparr>,
        subject = Some (Dict [(''reference'', Str (''Patient/'' @ patient_id))]),
        valueQuantity = Some (Dict [
          (''value'', Float temp_value),
          (''unit'', Str ''C''),
          (''system'', Str ''http://unitsofmeasure.org''),
          (''code'', Str ''Cel'')])\<rparr> 2 = Inr out)
   \<and> ((\<exists>e'. map_temperature_to_fhir json patient_id temp_value = Inl e')
      \<or> (\<exists>out'. map_temperature_to_fhir json patient_id temp_value = Inr out' \<and> json
       \<lparr>resource_type = ''Observation'',
        status = Some (Str ''final''),
        category = Some [\<lparr>coding = Some (List [Dict [
          (''system'', Str ''http://terminology.hl7.org/CodeSystem/observation-category''),
          (''code'', Str ''vital-signs''),
          (''display'', Str ''Vital Signs'')]])\<rparr>],
        code = Some \<lparr>coding = Some (List [Dict [
          (''system'', Str ''http://loinc.org''),
          (''code'', Str ''8310-5''),
          (''display'', Str ''Body temperature'')]])\<rparr>,
        subject = Some (Dict [(''reference'', Str (''Patient/'' @ patient_id))]),
        valueQuantity = Some (Dict [
          (''value'', Float temp_value),
          (''unit'', Str ''C''),
          (''system'', Str ''http://unitsofmeasure.org''),
          (''code'', Str ''Cel'')])\<rparr> 2 = Inr out'))"
proof (cases "isfinite temp_value")
  case True
  then show ?thesis
    by (cases "json
       \<lparr>resource_type = ''Observation'',
        status = Some (Str ''final''),
        category = Some [\<lparr>coding = Some (List [Dict [
          (''system'', Str ''http://terminology.hl7.org/CodeSystem/observation-category''),
          (''code'', Str ''vital-signs''),
          (''display'', Str ''Vital Signs'')]])\<rparr>],
        code = Some \<lparr>coding = Some (List [Dict [
          (''system'', Str ''http://loinc.org''),
          (''code'', Str ''8310-5''),
          (''display'', Str ''Body temperature'')]])\<rparr>,
        subject = Some (Dict [(''reference'', Str (''Patient/'' @ patient_id))]),
        valueQuantity = Some (Dict [
          (''value'', Float temp_value),
          (''unit'', Str ''C''),
          (''system'', Str ''http://unitsofmeasure.org''),
          (''code'', Str ''Cel'')])\<rparr> 2") (simp_all add: mapper_finite)
next
  case False
  then show ?thesis by (simp add: mapper_not_finite)
qed

theorem serialization_error_propagates_witness:
  "isfinite (Finite 36.5)
   \<and> rejecting
       \<lparr>resource_type = ''Observation'',
        status = Some (Str ''final''),
        category = Some [\<lparr>coding = Some (List [Dict [
          (''system'', Str ''http://terminology.hl7.org/CodeSystem/observation-category''),
          (''code'', Str ''vital-signs''),
          (''display'', Str ''Vital Signs'')]])\<rparr>],
        code = Some \<lparr>coding = Some (List [Dict [
          (''system'', Str ''http://loinc.org''),
          (''code'', Str ''8310-5''),
          (''display'', Str ''Body temperature'')]])\<rparr>,
        subject = Some (Dict [(''reference'', Str ''Patient/123'')]),
        valueQuantity = Some (Dict [
          (''value'', Float (Finite 36.5)),
          (''unit'', Str ''C''),
          (''system'', Str ''http://unitsofmeasure.org''),
          (''code'', Str ''Cel'')])\<rparr> 2 = Inl SerializationError
   \<and> map_temperature_to_fhir rejecting ''123'' (Finite 36.5) = Inl SerializationError
   \<and> map_temperature_to_fhir observed ''123'' (Finite 36.5) = Inr (
       \<lparr>resource_type = ''Observation'',
        status = Some (Str ''final''),
        category = Some [\<lparr>coding = Some (List [Dict [
          (''system'', Str ''http://terminology.hl7.org/CodeSystem/observation-category''),
          (''code'', Str ''vital-signs''),
          (''display'', Str ''Vital Signs'')]])\<rparr>],
        code = Some \<lparr>coding = Some (List [Dict [
          (''system'', Str ''http://loinc.org''),
          (''code'', Str ''8310-5''),
          (''display'', Str ''Body temperature'')]])\<rparr>,
        subject = Some (Dict [(''reference'', Str ''Patient/123'')]),
        valueQuantity = Some (Dict [
          (''value'', Float (Finite 36.5)),
          (''unit'', Str ''C''),
          (''system'', Str ''http://unitsofmeasure.org''),
          (''code'', Str ''Cel'')])\<rparr>, 2)"
proof -
  have fin: "isfinite (Finite 36.5)" by simp
  have r: "rejecting obs 2 = Inl SerializationError" for obs
    by (simp add: rejecting_def)
  have o: "map_temperature_to_fhir observed ''123'' (Finite 36.5) = Inr (
       \<lparr>resource_type = ''Observation'',
        status = Some (Str ''final''),
        category = Some [\<lparr>coding = Some (List [Dict [
          (''system'', Str ''http://terminology.hl7.org/CodeSystem/observation-category''),
          (''code'', Str ''vital-signs''),
          (''display'', Str ''Vital Signs'')]])\<rparr>],
        code = Some \<lparr>coding = Some (List [Dict [
          (''system'', Str ''http://loinc.org''),
          (''code'', Str ''8310-5''),
          (''display'', Str ''Body temperature'')]])\<rparr>,
        subject = Some (Dict [(''reference'', Str ''Patient/123'')]),
        valueQuantity = Some (Dict [
          (''value'', Float (Finite 36.5)),
          (''unit'', Str ''C''),
          (''system'', Str ''http://unitsofmeasure.org''),
          (''code'', Str ''Cel'')])\<rparr>, 2)"
    by (simp add: mapper_finite observed_def)
  from fin r o
    serialization_error_propagates
      [of "Finite 36.5" rejecting "''123''" SerializationError]
    serialization_error_propagates
      [of "Finite 36.5" observed "''123''" _ "(
       \<lparr>resource_type = ''Observation'',
        status = Some (Str ''final''),
        category = Some [\<lparr>coding = Some (List [Dict [
          (''system'', Str ''http://terminology.hl7.org/CodeSystem/observation-category''),
          (''code'', Str ''vital-signs''),
          (''display'', Str ''Vital Signs'')]])\<rparr>],
        code = Some \<lparr>coding = Some (List [Dict [
          (''system'', Str ''http://loinc.org''),
          (''code'', Str ''8310-5''),
          (''display'', Str ''Body temperature'')]])\<rparr>,
        subject = Some (Dict [(''reference'', Str ''Patient/123'')]),
        valueQuantity = Some (Dict [
          (''value'', Float (Finite 36.5)),
          (''unit'', Str ''C''),
          (''system'', Str ''http://unitsofmeasure.org''),
          (''code'', Str ''Cel'')])\<rparr>, 2)"]
  show ?thesis by simp
qed

section \<open>Where the mapper can fail\<close>

text \<open>
  C9, as stated: every string and every float, NaN and the infinities included, makes the
  mapper return. At \<open>("", NaN)\<close> it raises, also with a serializer that cannot fail.
\<close>

theorem no_error_path_counterexample:
  "map_temperature_to_fhir observed '''' NaN = Inl ValidationError
   \<and> (\<forall>number other.
        map_temperature_to_fhir (Observation_json number other) '''' NaN = Inl ValidationError)"
  by (simp add: mapper_not_finite)

text \<open>
  C9, amended: for every \<open>patient_id\<close>, the empty string included, and every finite
  \<open>temp_value\<close>, the mapper checks nothing and raises nothing itself: it hands the
  complete observation to the serializer and returns the serialized text. For NaN and the
  infinities the assignment of line 25 raises the library's ValidationError.
\<close>

theorem finite_value_is_serialized:
  "(isfinite temp_value \<longrightarrow>
      map_temperature_to_fhir json patient_id temp_value = json
        \<lparr>resource_type = ''Observation'',
         status = Some (Str ''final''),
         category = Some [\<lparr>coding = Some (List [Dict [
           (''system'', Str ''http://terminology.hl7.org/CodeSystem/observation-category''),
           (''code'', Str ''vital-signs''),
           (''display'', Str ''Vital Signs'')]])\<rparr>],
         code = Some \<lparr>coding = Some (List [Dict [
           (''system'', Str ''http://loinc.org''),
           (''code'', Str ''8310-5''),
           (''display'', Str ''Body temperature'')]])\<rparr>,
         subject = Some (Dict [(''reference'', Str (''Patient/'' @ patient_id))]),
         valueQuantity = Some (Dict [
           (''value'', Float temp_value),
           (''unit'', Str ''C''),
           (''system'', Str ''http://unitsofmeasure.org''),
           (''code'', Str ''Cel'')])\<rparr> 2
      \<and> (\<exists>out. map_temperature_to_fhir (Observation_json number other) patient_id temp_value
            = Inr out))
   \<and> (\<not> isfinite temp_value \<longrightarrow>
      map_temperature_to_fhir json patient_id temp_value = Inl ValidationError)"
  by (simp add: mapper_finite mapper_not_finite Observation_json_def)

theorem finite_value_is_serialized_witness:
  "isfinite (Finite 37)
   \<and> map_temperature_to_fhir observed '''' (Finite 37) = Inr (
        \<lparr>resource_type = ''Observation'',
         status = Some (Str ''final''),
         category = Some [\<lparr>coding = Some (List [Dict [
           (''system'', Str ''http://terminology.hl7.org/CodeSystem/observation-category''),
           (''code'', Str ''vital-signs''),
           (''display'', Str ''Vital Signs'')]])\<rparr>],
         code = Some \<lparr>coding = Some (List [Dict [
           (''system'', Str ''http://loinc.org''),
           (''code'', Str ''8310-5''),
           (''display'', Str ''Body temperature'')]])\<rparr>,
         subject = Some (Dict [(''reference'', Str ''Patient/'')]),
         valueQuantity = Some (Dict [
           (''value'', Float (Finite 37)),
           (''unit'', Str ''C''),
           (''system'', Str ''http://unitsofmeasure.org''),
           (''code'', Str ''Cel'')])\<rparr>, 2)
   \<and> (\<forall>number other. \<exists>out.
        map_temperature_to_fhir (Observation_json number other) '''' (Finite 37) = Inr out)
   \<and> \<not> isfinite NegInf
   \<and> map_temperature_to_fhir observed '''' NegInf = Inl ValidationError"
proof -
  have fin: "isfinite (Finite 37)" and inf: "\<not> isfinite NegInf" by simp_all
  from fin inf
    finite_value_is_serialized [of "Finite 37" observed "''''"]
    finite_value_is_serialized [of NegInf observed "''''"]
  show ?thesis by (simp add: observed_def)
qed

section \<open>The resource type\<close>

text \<open>
  C10. For every input on which the mapper returns, the serialized output has a
  top-level member \<open>resourceType\<close> with the value \<open>Observation\<close>. It is the first member
  of the text, in front of the five fields of section 6.
\<close>

theorem resource_type_member:
  assumes \<open>map_temperature_to_fhir (Observation_json number other) patient_id temp_value
    = Inr out\<close>
  shows \<open>\<exists>observation rest. assembled_observation patient_id temp_value = Inr observation
         \<and> out = dumps number other 2 0 (Observation_dict observation)
         \<and> member ''resourceType'' (Observation_dict observation) = Some (Str ''Observation'')
         \<and> map fst (members (Observation_dict observation)) =
             [''resourceType'', ''status'', ''category'', ''code'', ''subject'',
              ''valueQuantity'']
         \<and> out = ''{\<newline>  "resourceType": "Observation",\<newline>'' @ rest\<close>
proof (cases "isfinite temp_value")
  case False
  with assms show ?thesis by (simp add: mapper_not_finite)
next
  case True
  let ?R = "\<lparr>resource_type = ''Observation'',
             status = Some (Str ''final''),
             category = Some [\<lparr>coding = Some (List [Dict [
               (''system'', Str ''http://terminology.hl7.org/CodeSystem/observation-category''),
               (''code'', Str ''vital-signs''),
               (''display'', Str ''Vital Signs'')]])\<rparr>],
             code = Some \<lparr>coding = Some (List [Dict [
               (''system'', Str ''http://loinc.org''),
               (''code'', Str ''8310-5''),
               (''display'', Str ''Body temperature'')]])\<rparr>,
             subject = Some (Dict [(''reference'', Str (''Patient/'' @ patient_id))]),
             valueQuantity = Some (Dict [
               (''value'', Float temp_value),
               (''unit'', Str ''C''),
               (''system'', Str ''http://unitsofmeasure.org''),
               (''code'', Str ''Cel'')])\<rparr>"
  have a: "assembled_observation patient_id temp_value = Inr ?R"
    using True by (rule assembled_observation_finite)
  have d: "Observation_dict ?R = Dict ((''resourceType'', Str ''Observation'')
      # members (spec_output_shape patient_id temp_value))"
    by (rule Observation_dict_assembled)
  from True assms have o: "out = dumps number other 2 0 (Observation_dict ?R)"
    by (simp only: mapper_finite Observation_json_def sum.inject)
  have m: "member ''resourceType'' (Observation_dict ?R) = Some (Str ''Observation'')"
    unfolding d by simp
  have k: "map fst (members (Observation_dict ?R)) =
      [''resourceType'', ''status'', ''category'', ''code'', ''subject'', ''valueQuantity'']"
    unfolding d by (simp add: spec_output_shape_def)
  have \<open>\<exists>rest. out = ''{\<newline>  "resourceType": "Observation",\<newline>'' @ rest\<close>
    unfolding o d document_text by simp
  then obtain rest
    where rest: \<open>out = ''{\<newline>  "resourceType": "Observation",\<newline>'' @ rest\<close>
    by blast
  show ?thesis
    apply (intro exI conjI)
        apply (rule a)
       apply (rule o)
      apply (rule m)
     apply (rule k)
    apply (rule rest)
    done
qed

theorem resource_type_member_witness:
  \<open>\<forall>number other. \<exists>observation rest.
      assembled_observation ''7'' NegZero = Inr observation
      \<and> map_temperature_to_fhir (Observation_json number other) ''7'' NegZero =
          Inr (''{\<newline>  "resourceType": "Observation",\<newline>'' @ rest)
      \<and> member ''resourceType'' (Observation_dict observation) = Some (Str ''Observation'')\<close>
proof (intro allI)
  fix number :: "pyfloat \<Rightarrow> string" and other :: "char \<Rightarrow> string"
  have fin: "isfinite NegZero" by simp
  obtain out where out:
    "map_temperature_to_fhir (Observation_json number other) ''7'' NegZero = Inr out"
    using fin by (auto simp: mapper_finite Observation_json_def)
  from resource_type_member [OF out] out
  show \<open>\<exists>observation rest.
      assembled_observation ''7'' NegZero = Inr observation
      \<and> map_temperature_to_fhir (Observation_json number other) ''7'' NegZero =
          Inr (''{\<newline>  "resourceType": "Observation",\<newline>'' @ rest)
      \<and> member ''resourceType'' (Observation_dict observation) = Some (Str ''Observation'')\<close>
    by auto
qed

end
